theory Spec2Isabelle
  imports Main "HOL-Library.Word" "HOL-Library.Multiset"
begin

section \<open>The network engine of noise (network/network.go)\<close>

text \<open>
  A shallow embedding of \<^verbatim>\<open>network.go\<close>. The node's state is a record that is passed
  through every operation and returned updated. Goroutines are run one after the other, each
  to its end, in the order in which they are started. Collaborators whose code is not part of
  the file (address parsing, the protobuf codec, the signature and hash policies, the sockets)
  are fields of the record \<open>world\<close>: the general theorems hold for every such world, and
  they are run on one small world that is defined below.
\<close>

subsection \<open>Data\<close>

type_synonym bytes = "8 word list"
type_synonym uint64 = "64 word"
type_synonym go_int = "64 word"

text \<open>A socket (\<^verbatim>\<open>net.Conn\<close>) is known by a number; a \<^verbatim>\<open>*PeerClient\<close> is a reference
  into the heap of peer clients.\<close>

type_synonym net_Conn = nat
type_synonym ref = nat

datatype error =
    errEmptyMsg
  | ErrMessageNull         \<comment> \<open>\<^verbatim>\<open>network: message is null\<close>\<close>
  | ErrConnNotExist        \<comment> \<open>\<^verbatim>\<open>network: connection does not exist\<close>\<close>
  | ErrDialItself          \<comment> \<open>\<^verbatim>\<open>network: peer should not dial itself\<close>\<close>
  | ErrFailedToConnect     \<comment> \<open>\<^verbatim>\<open>network: peer failed to connect\<close>\<close>
  | ErrLoadSession         \<comment> \<open>\<^verbatim>\<open>network: failed to load session\<close>\<close>
  | ErrNotReady            \<comment> \<open>a peer client whose outgoing gate is not signaled\<close>
  | ErrExternal string     \<comment> \<open>an error of a collaborator (parser, codec, policy, socket)\<close>

text \<open>\<^verbatim>\<open>peer.ID\<close> and \<^verbatim>\<open>protobuf.ID\<close> are the same struct, converted freely.\<close>

record ID =
  ID_PublicKey :: bytes
  ID_Address :: string

text \<open>\<^verbatim>\<open>types.Any\<close>: the opaque payload of an envelope.\<close>

record Any =
  TypeUrl :: string
  Value :: bytes

text \<open>A decoded \<^verbatim>\<open>proto.Message\<close>: \<^verbatim>\<open>*protobuf.Bytes\<close>, which \<^verbatim>\<open>dispatchMessage\<close>
  singles out, or a message of any other type, given by its type name and content. The \<^verbatim>\<open>nil\<close>
  interface is \<open>None\<close> of \<open>proto_Message option\<close>.\<close>

datatype proto_Message = Bytes bytes | OtherMessage string bytes

text \<open>\<^verbatim>\<open>protobuf.Message\<close>, the envelope.\<close>

record Message =
  Message :: Any
  Sender :: ID
  Signature :: bytes
  MessageNonce :: uint64
  RequestNonce :: uint64
  ReplyFlag :: bool

record SignaturePolicy =
  sp_Sign :: "bytes \<Rightarrow> bytes \<Rightarrow> error + bytes"
  sp_Verify :: "bytes \<Rightarrow> bytes \<Rightarrow> bytes \<Rightarrow> bool"

record HashPolicy =
  hp_HashBytes :: "bytes \<Rightarrow> bytes"

record KeyPair =
  PrivateKey :: bytes
  PublicKey :: bytes

record options =
  signaturePolicy :: SignaturePolicy
  hashPolicy :: HashPolicy

text \<open>\<^verbatim>\<open>ConnState\<close>. The buffered writer is the list of the envelopes framed into it so far; the
  mutex has no content when goroutines run one after the other.\<close>

record ConnState =
  conn :: net_Conn
  writer :: "Message list"
  messageNonce :: uint64

text \<open>A \<^verbatim>\<open>RequestState\<close>: what has been sent on its \<^verbatim>\<open>data\<close> channel, and whether its
  \<^verbatim>\<open>closeSignal\<close> channel is closed.\<close>

record RequestState =
  data :: "proto_Message list"
  closeSignal :: bool

text \<open>The fields of a \<^verbatim>\<open>PeerClient\<close> that \<^verbatim>\<open>network.go\<close> reads or writes. The two gates are
  channels that are closed once; \<open>jobs\<close> is the queue of the ordered executor, each entry the
  envelope of one submitted call of \<^verbatim>\<open>dispatchMessage\<close>; \<open>handled\<close> is what
  \<^verbatim>\<open>handleBytes\<close> was given.\<close>

record PeerClient =
  pc_ID :: "ID option"
  pc_Address :: string
  Requests :: "uint64 \<rightharpoonup> RequestState"
  outgoingReady :: bool
  incomingReady :: bool
  initialised :: bool
  closed :: bool
  jobs :: "Message list"
  handled :: "bytes list"

record PluginContext =
  ctx_client :: ref
  ctx_message :: proto_Message
  ctx_nonce :: uint64

datatype log_entry =
    LogError error
  | LogMismatch ID string        \<comment> \<open>\<^verbatim>\<open>message signed by peer %s but client is %s\<close>\<close>
  | LogSendFailed "ID option" error  \<comment> \<open>\<^verbatim>\<open>failed to send message to peer %v [err=%s]\<close>\<close>

record AddressInfo =
  Protocol :: string
  Host :: string
  Port :: nat

text \<open>The collaborators of \<^verbatim>\<open>network.go\<close>, as parameters.\<close>

record world =
  ToUnifiedAddress :: "string \<Rightarrow> error + string"
  ParseAddress :: "string \<Rightarrow> error + AddressInfo"
  HostPort :: "AddressInfo \<Rightarrow> string"
  createPeerClient_error :: "string \<Rightarrow> error option"
  MarshalAny :: "proto_Message \<Rightarrow> error + Any"
  UnmarshalAny :: "Any \<Rightarrow> error + proto_Message"
  serializeID :: "ID \<Rightarrow> bytes"
  write_fails :: "net_Conn \<Rightarrow> Message \<Rightarrow> error option"

text \<open>\<^verbatim>\<open>Network\<close>. \<open>Peers\<close> is a \<^verbatim>\<open>sync.Map\<close> that is ranged over, so it is an
  association list, ranged over from its head; a transport layer is its \<^verbatim>\<open>Dial\<close>. The last
  five fields are not fields of the struct: the heap of peer clients, the next free reference,
  what glog has written, the plugins' \<^verbatim>\<open>Receive\<close> calls so far and the sockets closed so far.\<close>

record Network =
  opts :: options
  keys :: KeyPair
  Address :: string
  Plugins :: "(PluginContext \<Rightarrow> error option) list"
  Network_ID :: ID
  Peers :: "(string \<times> ref) list"
  Connections :: "string \<rightharpoonup> ConnState"
  Transports :: "string \<rightharpoonup> (string \<Rightarrow> error + net_Conn)"
  heap :: "ref \<Rightarrow> PeerClient"
  next_ref :: ref
  glog :: "log_entry list"
  received :: "(nat \<times> PluginContext) list"
  closed_conns :: "net_Conn list"

text \<open>A call returns, or the process ends: \<^verbatim>\<open>glog.Fatal\<close> exits, a panic in a goroutine
  that nobody recovers ends the program.\<close>

datatype 'a outcome = Done 'a | Fatal string | Panic string

subsection \<open>Signing and writing\<close>

text \<open>Modelled from the spec: \<^verbatim>\<open>SerializeMessage\<close> is not in the file. The signature covers
  the concatenation of the serialized sender identity and the raw payload bytes.\<close>

definition SerializeMessage :: "world \<Rightarrow> ID \<Rightarrow> bytes \<Rightarrow> bytes" where
  "SerializeMessage w id' message = serializeID w id' @ message"

text \<open>Modelled from the spec: \<^verbatim>\<open>KeyPair.Sign\<close> is not in the file. The message is hashed
  with the hash policy and signed with the signature policy; the call site shows that it can
  return an error.\<close>

definition Sign :: "KeyPair \<Rightarrow> SignaturePolicy \<Rightarrow> HashPolicy \<Rightarrow> bytes \<Rightarrow> error + bytes" where
  "Sign k sp hp message = sp_Sign sp (PrivateKey k) (hp_HashBytes hp message)"

text \<open>Modelled from the spec: the check that \<^verbatim>\<open>receiveMessage\<close> makes of an envelope. The
  verifier derives the key from the envelope's sender and checks the signature over the same
  bytes that were signed.\<close>

definition verifies :: "world \<Rightarrow> options \<Rightarrow> Message \<Rightarrow> bool" where
  "verifies w os msg =
     sp_Verify (signaturePolicy os) (ID_PublicKey (Sender msg))
       (hp_HashBytes (hashPolicy os) (SerializeMessage w (Sender msg) (Value (Message msg))))
       (Signature msg)"

definition PrepareMessage :: "world \<Rightarrow> Network \<Rightarrow> proto_Message option \<Rightarrow> error + Message" where
  "PrepareMessage w n message =
     (case message of
        None \<Rightarrow> Inl ErrMessageNull
      | Some m \<Rightarrow>
          (case MarshalAny w m of
             Inl err \<Rightarrow> Inl err
           | Inr raw \<Rightarrow>
               (let id' = Network_ID n in
                case Sign (keys n) (signaturePolicy (opts n)) (hashPolicy (opts n))
                       (SerializeMessage w id' (Value raw)) of
                  Inl err \<Rightarrow> Inl err
                | Inr signature \<Rightarrow>
                    Inr \<lparr>Message = raw, Sender = id', Signature = signature,
                         MessageNonce = 0, RequestNonce = 0, ReplyFlag = False\<rparr>)))"

text \<open>Modelled from the spec: \<^verbatim>\<open>sendMessage\<close> is not in the file. It serializes the envelope
  and writes the frame to the buffered writer, or fails on an I/O or serialization failure,
  which the world decides.\<close>

definition sendMessage :: "world \<Rightarrow> ConnState \<Rightarrow> Message \<Rightarrow> error option \<times> ConnState" where
  "sendMessage w state message =
     (case write_fails w (conn state) message of
        Some err \<Rightarrow> (Some err, state)
      | None \<Rightarrow> (None, state\<lparr>writer := writer state @ [message]\<rparr>))"

text \<open>\<^verbatim>\<open>Write\<close> returns its error, the network and the envelope it was given, which it
  changes through the pointer. \<^verbatim>\<open>atomic.AddUint64\<close> adds modulo \<open>2 ^ 64\<close> and returns the new
  value. The write deadline that is set on the socket is a matter of time and is left out.\<close>

definition Write :: "world \<Rightarrow> Network \<Rightarrow> string \<Rightarrow> Message \<Rightarrow> error option \<times> Network \<times> Message" where
  "Write w n address message =
     (case Connections n address of
        None \<Rightarrow> (Some ErrConnNotExist, n, message)
      | Some state \<Rightarrow>
          (let nonce = messageNonce state + 1;
               state1 = state\<lparr>messageNonce := nonce\<rparr>;
               message1 = message\<lparr>MessageNonce := nonce\<rparr>;
               (err, state2) = sendMessage w state1 message1
           in (err, n\<lparr>Connections := (Connections n)(address \<mapsto> state2)\<rparr>, message1)))"

subsection \<open>The receive path: \<^verbatim>\<open>dispatchMessage\<close>\<close>

definition update_client :: "Network \<Rightarrow> ref \<Rightarrow> (PeerClient \<Rightarrow> PeerClient) \<Rightarrow> Network" where
  "update_client n c f = n\<lparr>heap := (heap n)(c := f (heap n c))\<rparr>"

definition logs :: "Network \<Rightarrow> log_entry \<Rightarrow> Network" where
  "logs n e = n\<lparr>glog := glog n @ [e]\<rparr>"

text \<open>Modelled from the spec: the methods of \<^verbatim>\<open>PeerClient\<close> are not in the file. The two
  readiness tests say whether the gate is signaled; \<^verbatim>\<open>handleBytes\<close> takes the raw bytes
  in-band; \<^verbatim>\<open>Submit\<close> puts a task at the end of the queue of the ordered executor; \<^verbatim>\<open>Init\<close>
  initializes the client; \<^verbatim>\<open>Close\<close> closes the client and signals every outstanding
  \<^verbatim>\<open>RequestState\<close> through its close signal.\<close>

definition IncomingReady :: "PeerClient \<Rightarrow> bool" where
  "IncomingReady p = incomingReady p"

definition OutgoingReady :: "PeerClient \<Rightarrow> bool" where
  "OutgoingReady p = outgoingReady p"

definition handleBytes :: "Network \<Rightarrow> ref \<Rightarrow> bytes \<Rightarrow> Network" where
  "handleBytes n c d = update_client n c (\<lambda>p. p\<lparr>handled := handled p @ [d]\<rparr>)"

definition Submit :: "Network \<Rightarrow> ref \<Rightarrow> Message \<Rightarrow> Network" where
  "Submit n c msg = update_client n c (\<lambda>p. p\<lparr>jobs := jobs p @ [msg]\<rparr>)"

definition Init :: "Network \<Rightarrow> ref \<Rightarrow> Network" where
  "Init n c = update_client n c (\<lambda>p. p\<lparr>initialised := True\<rparr>)"

definition Close :: "Network \<Rightarrow> ref \<Rightarrow> Network" where
  "Close n c =
     update_client n c
       (\<lambda>p. p\<lparr>closed := True,
              Requests := (\<lambda>k. map_option (\<lambda>s. s\<lparr>closeSignal := True\<rparr>) (Requests p k))\<rparr>)"

text \<open>The \<^verbatim>\<open>select\<close> of \<^verbatim>\<open>dispatchMessage\<close> waits until the send on \<^verbatim>\<open>state.data\<close> or the
  receive from \<^verbatim>\<open>state.closeSignal\<close> can proceed. Which of the two proceeds is decided by the
  goroutine of the requester, so it is an argument.\<close>

datatype select_case = SendProceeds | CloseProceeds

definition select_data :: "select_case \<Rightarrow> RequestState \<Rightarrow> proto_Message \<Rightarrow> RequestState" where
  "select_data sel state m =
     (case sel of
        SendProceeds \<Rightarrow> state\<lparr>data := data state @ [m]\<rparr>
      | CloseProceeds \<Rightarrow> state)"

text \<open>\<^verbatim>\<open>n.Plugins.Each\<close> with the callback of \<^verbatim>\<open>dispatchMessage\<close>: every plugin, in the order
  of registration, receives the context; an error is logged. The pool of contexts recycles
  memory only and is left out.\<close>

fun Each_Receive :: "(PluginContext \<Rightarrow> error option) list \<Rightarrow> nat \<Rightarrow> PluginContext \<Rightarrow> Network \<Rightarrow> Network" where
  "Each_Receive [] i ctx n = n"
| "Each_Receive (plugin # ps) i ctx n =
     (let n1 = n\<lparr>received := received n @ [(i, ctx)]\<rparr>;
          n2 = (case plugin ctx of Some err \<Rightarrow> logs n1 (LogError err) | None \<Rightarrow> n1)
      in Each_Receive ps (Suc i) ctx n2)"

definition dispatchMessage :: "world \<Rightarrow> select_case \<Rightarrow> Network \<Rightarrow> ref \<Rightarrow> Message \<Rightarrow> Network" where
  "dispatchMessage w sel n client msg =
     (if \<not> IncomingReady (heap n client) then n
      else
        (case UnmarshalAny w (Message msg) of
           Inl err \<Rightarrow> logs n (LogError err)
         | Inr ptr \<Rightarrow>
             (case (if RequestNonce msg > 0 \<and> ReplyFlag msg
                    then Requests (heap n client) (RequestNonce msg) else None) of
                Some state \<Rightarrow>
                  update_client n client
                    (\<lambda>p. p\<lparr>Requests := (Requests p)(RequestNonce msg \<mapsto> select_data sel state ptr)\<rparr>)
              | None \<Rightarrow>
                  (case ptr of
                     Bytes d \<Rightarrow> handleBytes n client d
                   | OtherMessage t v \<Rightarrow>
                       Each_Receive (Plugins n) 0
                         \<lparr>ctx_client = client, ctx_message = ptr, ctx_nonce = RequestNonce msg\<rparr> n))))"

subsection \<open>\<^verbatim>\<open>Dial\<close> and \<^verbatim>\<open>Client\<close>\<close>

definition Dial :: "world \<Rightarrow> Network \<Rightarrow> string \<Rightarrow> (error + net_Conn) outcome" where
  "Dial w n address =
     (case ParseAddress w address of
        Inl err \<Rightarrow> Done (Inl err)
      | Inr addrInfo \<Rightarrow>
          (case (if Host addrInfo \<noteq> ''127.0.0.1''
                 then (case ParseAddress w (Address n) of
                         Inl err \<Rightarrow> Inl err
                       | Inr host \<Rightarrow>
                           Inr (if Host addrInfo = Host host
                                then addrInfo\<lparr>Host := ''127.0.0.1''\<rparr> else addrInfo))
                 else Inr addrInfo) of
             Inl err \<Rightarrow> Done (Inl err)
           | Inr addrInfo1 \<Rightarrow>
               (case Transports n (Protocol addrInfo1) of
                  None \<Rightarrow> Fatal (''invalid protocol: '' @ Protocol addrInfo1)
                | Some t \<Rightarrow>
                    (case t (HostPort w addrInfo1) of
                       Inl err \<Rightarrow> Done (Inl err)
                     | Inr c \<Rightarrow> Done (Inr c)))))"

text \<open>Modelled from the spec: \<^verbatim>\<open>createPeerClient\<close> is not in the file. It returns an error or
  a new peer client for the address, with no identity and both gates unsignaled.\<close>

definition new_PeerClient :: "string \<Rightarrow> PeerClient" where
  "new_PeerClient address =
     \<lparr>pc_ID = None, pc_Address = address, Requests = Map.empty, outgoingReady = False,
      incomingReady = False, initialised = False, closed = False, jobs = [], handled = []\<rparr>"

definition createPeerClient :: "world \<Rightarrow> Network \<Rightarrow> string \<Rightarrow> (error + ref) \<times> Network" where
  "createPeerClient w n address =
     (case createPeerClient_error w address of
        Some err \<Rightarrow> (Inl err, n)
      | None \<Rightarrow>
          (Inr (next_ref n),
           n\<lparr>heap := (heap n)(next_ref n := new_PeerClient address), next_ref := Suc (next_ref n)\<rparr>))"

definition Peers_Delete :: "string \<Rightarrow> (string \<times> ref) list \<Rightarrow> (string \<times> ref) list" where
  "Peers_Delete address ps = filter (\<lambda>kv. fst kv \<noteq> address) ps"

definition new_ConnState :: "net_Conn \<Rightarrow> ConnState" where
  "new_ConnState c = \<lparr>conn = c, writer = [], messageNonce = 0\<rparr>"

text \<open>\<^verbatim>\<open>Client\<close>. The deferred \<^verbatim>\<open>close(client.outgoingReady)\<close> runs on both returns that follow
  it; \<^verbatim>\<open>glog.Fatal\<close> in \<^verbatim>\<open>Dial\<close> ends the process before it.\<close>

definition Client :: "world \<Rightarrow> Network \<Rightarrow> string \<Rightarrow> ((error + ref) \<times> Network) outcome" where
  "Client w n address0 =
     (case ToUnifiedAddress w address0 of
        Inl err \<Rightarrow> Done (Inl err, n)
      | Inr address \<Rightarrow>
          if address = Address n then Done (Inl ErrDialItself, n)
          else
            (case createPeerClient w n address of
               (Inl err, n1) \<Rightarrow> Done (Inl err, n1)
             | (Inr clientNew, n1) \<Rightarrow>
                 (case map_of (Peers n1) address of
                    Some client \<Rightarrow>
                      if \<not> OutgoingReady (heap n1 client) then Done (Inl ErrFailedToConnect, n1)
                      else Done (Inr client, n1)
                  | None \<Rightarrow>
                      (let n2 = n1\<lparr>Peers := Peers n1 @ [(address, clientNew)]\<rparr>;
                           client = clientNew
                       in case Dial w n2 address of
                            Fatal s \<Rightarrow> Fatal s
                          | Panic s \<Rightarrow> Panic s
                          | Done (Inl err) \<Rightarrow>
                              (let n3 = n2\<lparr>Peers := Peers_Delete address (Peers n2)\<rparr>
                               in Done (Inl err,
                                        update_client n3 client (\<lambda>p. p\<lparr>outgoingReady := True\<rparr>)))
                          | Done (Inr c) \<Rightarrow>
                              (let n3 = n2\<lparr>Connections := (Connections n2)(address \<mapsto> new_ConnState c)\<rparr>;
                                   n4 = Init n3 client
                               in Done (Inr client,
                                        update_client n4 client (\<lambda>p. p\<lparr>outgoingReady := True\<rparr>)))))))"

subsection \<open>\<^verbatim>\<open>Accept\<close>\<close>

text \<open>The variables of \<^verbatim>\<open>Accept\<close> that its goroutines share.\<close>

record locals =
  client :: "ref option"
  clientInit :: bool
  outgoing :: "net_Conn option"

text \<open>Modelled from the spec: \<^verbatim>\<open>peer.ID.Equals\<close> is not in the file. Two identities are
  equal iff their public keys are equal.\<close>

definition Equals :: "ID \<Rightarrow> ID \<Rightarrow> bool" where
  "Equals a b = (ID_PublicKey a = ID_PublicKey b)"

text \<open>The function given to \<^verbatim>\<open>clientInit.Do\<close>. It returns the shared variables and the
  \<^verbatim>\<open>err\<close> of the iteration. Closing a channel that is closed panics.\<close>

definition Accept_init :: "world \<Rightarrow> Network \<Rightarrow> locals \<Rightarrow> Message \<Rightarrow> (Network \<times> locals \<times> error option) outcome" where
  "Accept_init w n loc msg =
     (case Client w n (ID_Address (Sender msg)) of
        Fatal s \<Rightarrow> Fatal s
      | Panic s \<Rightarrow> Panic s
      | Done (Inl err, n1) \<Rightarrow> Done (n1, loc\<lparr>client := None, clientInit := True\<rparr>, Some err)
      | Done (Inr c, n1) \<Rightarrow>
          (let n2 = update_client n1 c (\<lambda>p. p\<lparr>pc_ID := Some (Sender msg)\<rparr>);
               loc1 = loc\<lparr>client := Some c\<rparr>;
               (loc2, err) =
                  (case Connections n2 (ID_Address (Sender msg)) of
                     Some state \<Rightarrow> (loc1\<lparr>outgoing := Some (conn state)\<rparr>, None)
                   | None \<Rightarrow> (loc1, Some ErrLoadSession))
           in if incomingReady (heap n2 c) then Panic ''close of closed channel''
              else Done (update_client n2 c (\<lambda>p. p\<lparr>incomingReady := True\<rparr>),
                         loc2\<lparr>clientInit := True\<rparr>, err)))"

text \<open>The goroutine that \<^verbatim>\<open>Accept\<close> starts for one received envelope. Its \<^verbatim>\<open>err\<close> is the one
  of its iteration, which is \<^verbatim>\<open>nil\<close> when the goroutine starts.\<close>

definition Accept_goroutine :: "world \<Rightarrow> Network \<Rightarrow> locals \<Rightarrow> Message \<Rightarrow> (Network \<times> locals) outcome" where
  "Accept_goroutine w n loc msg =
     (case (if clientInit loc then Done (n, loc, None) else Accept_init w n loc msg) of
        Fatal s \<Rightarrow> Fatal s
      | Panic s \<Rightarrow> Panic s
      | Done (n1, loc1, err) \<Rightarrow>
          (case err of
             Some e \<Rightarrow> Done (logs n1 (LogError e), loc1)
           | None \<Rightarrow>
               (case client loc1 of
                  None \<Rightarrow> Panic ''nil pointer dereference''
                | Some c \<Rightarrow>
                    (case pc_ID (heap n1 c) of
                       None \<Rightarrow> Panic ''nil pointer dereference''
                     | Some cid \<Rightarrow>
                         if \<not> Equals cid (Sender msg)
                         then Done (logs n1 (LogMismatch (Sender msg) (ID_Address cid)), loc1)
                         else Done (Submit n1 c msg, loc1)))))"

text \<open>The deferred cleanup of \<^verbatim>\<open>Accept\<close>.\<close>

definition Accept_cleanup :: "Network \<Rightarrow> net_Conn \<Rightarrow> locals \<Rightarrow> Network" where
  "Accept_cleanup n incoming loc =
     (let n1 = (case client loc of Some c \<Rightarrow> Close n c | None \<Rightarrow> n);
          n2 = n1\<lparr>closed_conns := closed_conns n1 @ [incoming]\<rparr>
      in case outgoing loc of
           Some out \<Rightarrow> n2\<lparr>closed_conns := closed_conns n2 @ [out]\<rparr>
         | None \<Rightarrow> n2)"

text \<open>The loop of \<^verbatim>\<open>Accept\<close>, over what the successive calls of \<^verbatim>\<open>receiveMessage\<close> return.
  When the list is used up the loop is \<open>Reading\<close>: it waits in \<^verbatim>\<open>receiveMessage\<close> for the
  next frame. After the \<^verbatim>\<open>break\<close> the function has \<open>Returned\<close>, through its cleanup.\<close>

datatype accept_status = Reading | Returned

fun Accept_loop :: "world \<Rightarrow> Network \<Rightarrow> net_Conn \<Rightarrow> locals \<Rightarrow> (error + Message) list \<Rightarrow> (accept_status \<times> Network \<times> locals) outcome" where
  "Accept_loop w n incoming loc [] = Done (Reading, n, loc)"
| "Accept_loop w n incoming loc (Inl err # rest) =
     (let n1 = (if err \<noteq> errEmptyMsg then logs n (LogError err) else n)
      in Done (Returned, Accept_cleanup n1 incoming loc, loc))"
| "Accept_loop w n incoming loc (Inr msg # rest) =
     (case Accept_goroutine w n loc msg of
        Fatal s \<Rightarrow> Fatal s
      | Panic s \<Rightarrow> Panic s
      | Done (n1, loc1) \<Rightarrow> Accept_loop w n1 incoming loc1 rest)"

definition Accept :: "world \<Rightarrow> Network \<Rightarrow> net_Conn \<Rightarrow> (error + Message) list \<Rightarrow> (accept_status \<times> Network \<times> locals) outcome" where
  "Accept w n incoming frames =
     Accept_loop w n incoming \<lparr>client = None, clientInit = False, outgoing = None\<rparr> frames"

subsection \<open>Broadcasts\<close>

text \<open>Modelled from the spec: \<^verbatim>\<open>PeerClient.Tell\<close> is not in the file. It fails when the
  outgoing gate is not signaled; otherwise it prepares and signs an envelope and writes it to
  the connection of the peer.\<close>

definition Tell :: "world \<Rightarrow> Network \<Rightarrow> ref \<Rightarrow> proto_Message option \<Rightarrow> error option \<times> Network" where
  "Tell w n c message =
     (if \<not> OutgoingReady (heap n c) then (Some ErrNotReady, n)
      else
        (case PrepareMessage w n message of
           Inl err \<Rightarrow> (Some err, n)
         | Inr signed' \<Rightarrow>
             (case Write w n (pc_Address (heap n c)) signed' of
                (err, n1, signed1) \<Rightarrow> (err, n1))))"

text \<open>\<^verbatim>\<open>Broadcast\<close>: the callback runs for every entry of the registry and always returns
  \<^verbatim>\<open>true\<close>.\<close>

fun Broadcast_Range :: "world \<Rightarrow> Network \<Rightarrow> proto_Message option \<Rightarrow> (string \<times> ref) list \<Rightarrow> Network" where
  "Broadcast_Range w n message [] = n"
| "Broadcast_Range w n message ((key, c) # ps) =
     (case Tell w n c message of
        (Some err, n1) \<Rightarrow>
          Broadcast_Range w (logs n1 (LogSendFailed (pc_ID (heap n1 c)) err)) message ps
      | (None, n1) \<Rightarrow> Broadcast_Range w n1 message ps)"

definition Broadcast :: "world \<Rightarrow> Network \<Rightarrow> proto_Message option \<Rightarrow> Network" where
  "Broadcast w n message = Broadcast_Range w n message (Peers n)"

text \<open>The loop of \<^verbatim>\<open>BroadcastByAddresses\<close> and of \<^verbatim>\<open>BroadcastByIDs\<close>: the one signed
  envelope goes through every \<^verbatim>\<open>Write\<close>, and what \<^verbatim>\<open>Write\<close> returns is dropped. The function
  also returns the errors that were dropped, in the order of the targets.\<close>

fun Write_each :: "world \<Rightarrow> Network \<Rightarrow> Message \<Rightarrow> string list \<Rightarrow> Network \<times> Message \<times> error option list" where
  "Write_each w n signed' [] = (n, signed', [])"
| "Write_each w n signed' (address # rest) =
     (case Write w n address signed' of
        (err, n1, signed1) \<Rightarrow>
          (case Write_each w n1 signed1 rest of
             (n2, signed2, errs) \<Rightarrow> (n2, signed2, err # errs)))"

definition BroadcastByAddresses :: "world \<Rightarrow> Network \<Rightarrow> proto_Message option \<Rightarrow> string list \<Rightarrow> Network" where
  "BroadcastByAddresses w n message addresses =
     (case PrepareMessage w n message of
        Inl err \<Rightarrow> n
      | Inr signed' \<Rightarrow> fst (Write_each w n signed' addresses))"

definition BroadcastByIDs :: "world \<Rightarrow> Network \<Rightarrow> proto_Message option \<Rightarrow> ID list \<Rightarrow> Network" where
  "BroadcastByIDs w n message ids =
     (case PrepareMessage w n message of
        Inl err \<Rightarrow> n
      | Inr signed' \<Rightarrow> fst (Write_each w n signed' (map ID_Address ids)))"

text \<open>The \<^verbatim>\<open>Range\<close> of \<^verbatim>\<open>BroadcastRandomly\<close>: the callback appends the address of the client
  and then returns \<^verbatim>\<open>len(addresses) <= K*3\<close>; \<^verbatim>\<open>Range\<close> stops when it returns \<^verbatim>\<open>false\<close>.
  \<^verbatim>\<open>K\<close> is a signed 64-bit integer, whose product wraps.\<close>

fun Range_addresses :: "Network \<Rightarrow> go_int \<Rightarrow> string list \<Rightarrow> (string \<times> ref) list \<Rightarrow> string list" where
  "Range_addresses n K addresses [] = addresses"
| "Range_addresses n K addresses ((key, c) # ps) =
     (let addresses1 = addresses @ [pc_Address (heap n c)]
      in if int (length addresses1) \<le> sint (K * 3)
         then Range_addresses n K addresses1 ps else addresses1)"

text \<open>\<^verbatim>\<open>rand.Shuffle\<close> of the Go library: for \<^verbatim>\<open>i\<close> from \<^verbatim>\<open>n - 1\<close> down to \<^verbatim>\<open>1\<close> it swaps the
  elements at \<^verbatim>\<open>i\<close> and at a random \<^verbatim>\<open>j\<close> with \<^verbatim>\<open>0 <= j <= i\<close>. The random source is the
  function \<open>rnd\<close>, reduced modulo \<^verbatim>\<open>i + 1\<close>.\<close>

definition swap :: "nat \<Rightarrow> nat \<Rightarrow> 'a list \<Rightarrow> 'a list" where
  "swap i j xs = xs[i := xs ! j, j := xs ! i]"

fun Shuffle_loop :: "(nat \<Rightarrow> nat) \<Rightarrow> nat \<Rightarrow> 'a list \<Rightarrow> 'a list" where
  "Shuffle_loop rnd 0 xs = xs"
| "Shuffle_loop rnd (Suc i) xs = Shuffle_loop rnd i (swap (Suc i) (rnd (Suc i) mod (Suc i + 1)) xs)"

definition Shuffle :: "(nat \<Rightarrow> nat) \<Rightarrow> 'a list \<Rightarrow> 'a list" where
  "Shuffle rnd xs = Shuffle_loop rnd (length xs - 1) xs"

text \<open>What \<^verbatim>\<open>BroadcastRandomly\<close> collects, and what it forwards: \<^verbatim>\<open>addresses[:K]\<close> panics
  when \<^verbatim>\<open>K\<close> is negative.\<close>

definition sampled :: "Network \<Rightarrow> go_int \<Rightarrow> string list" where
  "sampled n K = Range_addresses n K [] (Peers n)"

definition forwarded :: "(nat \<Rightarrow> nat) \<Rightarrow> Network \<Rightarrow> go_int \<Rightarrow> string list outcome" where
  "forwarded rnd n K =
     (let addresses = Shuffle rnd (sampled n K);
          K1 = (if int (length addresses) < sint K then int (length addresses) else sint K)
      in if K1 < 0 then Panic ''slice bounds out of range''
         else Done (take (nat K1) addresses))"

definition BroadcastRandomly :: "world \<Rightarrow> (nat \<Rightarrow> nat) \<Rightarrow> Network \<Rightarrow> proto_Message option \<Rightarrow> go_int \<Rightarrow> Network outcome" where
  "BroadcastRandomly w rnd n message K =
     (case forwarded rnd n K of
        Fatal s \<Rightarrow> Fatal s
      | Panic s \<Rightarrow> Panic s
      | Done addresses \<Rightarrow> Done (BroadcastByAddresses w n message addresses))"

text \<open>The nonces that \<^verbatim>\<open>Write\<close> assigns when the envelopes of a list are written to one
  address, one after the other.\<close>

fun Write_nonces :: "world \<Rightarrow> Network \<Rightarrow> string \<Rightarrow> Message list \<Rightarrow> uint64 list" where
  "Write_nonces w n address [] = []"
| "Write_nonces w n address (message # rest) =
     (case Write w n address message of
        (err, n1, message1) \<Rightarrow> MessageNonce message1 # Write_nonces w n1 address rest)"

subsection \<open>Observations\<close>

text \<open>Two envelopes that agree in every field but the message nonce.\<close>

definition differs_only_in_MessageNonce :: "Message \<Rightarrow> Message \<Rightarrow> bool" where
  "differs_only_in_MessageNonce a b =
     (Message a = Message b \<and> Sender a = Sender b \<and> Signature a = Signature b \<and>
      RequestNonce a = RequestNonce b \<and> ReplyFlag a = ReplyFlag b)"

text \<open>The identity that an \<^verbatim>\<open>Accept\<close> has learned: the \<^verbatim>\<open>ID\<close> of its client, once the
  one-shot initialisation has run and has left a client.\<close>

definition learned_ID :: "Network \<Rightarrow> locals \<Rightarrow> ID option" where
  "learned_ID n loc =
     (if clientInit loc
      then (case client loc of Some c \<Rightarrow> pc_ID (heap n c) | None \<Rightarrow> None)
      else None)"

text \<open>What can be seen of a run of \<^verbatim>\<open>Accept\<close> and of the peer client \<open>c\<close>: whether the loop
  still reads, the tasks submitted to the client, whether the client is closed, the sockets
  closed and the log.\<close>

definition observe :: "(accept_status \<times> Network \<times> locals) outcome \<Rightarrow> ref \<Rightarrow>
    (accept_status \<times> Message list \<times> bool \<times> net_Conn list \<times> log_entry list) option" where
  "observe r c =
     (case r of
        Done (st, n, loc) \<Rightarrow> Some (st, jobs (heap n c), closed (heap n c), closed_conns n, glog n)
      | Fatal s \<Rightarrow> None
      | Panic s \<Rightarrow> None)"

text \<open>The number of values of a \<^verbatim>\<open>uint64\<close>.\<close>

definition uint64_values :: nat where
  "uint64_values = 2 ^ 64"

subsection \<open>A concrete node\<close>

text \<open>A small world and a node in it, on which the theorems are run. The signature policy
  wants a private key of two bytes and signs by prefixing the key (the public key is the private
  key); the hash keeps four bytes. The transport refuses the host \<^verbatim>\<open>down\<close>; the socket to the
  host \<^verbatim>\<open>flaky\<close> is socket 9, on which every write fails.\<close>

definition sp0 :: SignaturePolicy where
  "sp0 = \<lparr>sp_Sign = (\<lambda>sk d. if length sk \<noteq> 2 then Inl (ErrExternal ''private key size'')
                            else Inr (sk @ d)),
          sp_Verify = (\<lambda>pk d s. s = pk @ d)\<rparr>"

definition hp0 :: HashPolicy where
  "hp0 = \<lparr>hp_HashBytes = (\<lambda>b. take 4 b)\<rparr>"

definition w0 :: world where
  "w0 = \<lparr>ToUnifiedAddress = (\<lambda>a. if a = [] then Inl (ErrExternal ''invalid address'') else Inr a),
         ParseAddress = (\<lambda>a. if a = [] then Inl (ErrExternal ''invalid address'')
                             else Inr \<lparr>Protocol = take 3 a, Host = drop 6 a, Port = 3000\<rparr>),
         HostPort = (\<lambda>i. Host i),
         createPeerClient_error = (\<lambda>a. None),
         MarshalAny = (\<lambda>m. case m of
                          Bytes d \<Rightarrow> Inr \<lparr>TypeUrl = ''Bytes'', Value = d\<rparr>
                        | OtherMessage t v \<Rightarrow>
                            if t = [] \<or> t = ''Bytes'' then Inl (ErrExternal ''no type'')
                            else Inr \<lparr>TypeUrl = t, Value = v\<rparr>),
         UnmarshalAny = (\<lambda>a. if TypeUrl a = [] then Inl (ErrExternal ''no type'')
                             else if TypeUrl a = ''Bytes'' then Inr (Bytes (Value a))
                             else Inr (OtherMessage (TypeUrl a) (Value a))),
         serializeID = (\<lambda>i. ID_PublicKey i),
         write_fails = (\<lambda>c m. if c = 9 then Some (ErrExternal ''broken pipe'') else None)\<rparr>"

definition id0 :: ID where
  "id0 = \<lparr>ID_PublicKey = [1, 2], ID_Address = ''tcp://self''\<rparr>"

definition n0 :: Network where
  "n0 = \<lparr>opts = \<lparr>signaturePolicy = sp0, hashPolicy = hp0\<rparr>,
         keys = \<lparr>PrivateKey = [1, 2], PublicKey = [1, 2]\<rparr>,
         Address = ''tcp://self'',
         Plugins = [\<lambda>ctx. None],
         Network_ID = id0,
         Peers = [],
         Connections = Map.empty,
         Transports = [''tcp'' \<mapsto> (\<lambda>hp. if hp = ''down'' then Inl (ErrExternal ''connection refused'')
                                         else if hp = ''flaky'' then Inr 9 else Inr 1)],
         heap = (\<lambda>r. new_PeerClient []),
         next_ref = 0,
         glog = [],
         received = [],
         closed_conns = []\<rparr>"

text \<open>A payload and the envelope that the node prepares for it.\<close>

definition p0 :: proto_Message where
  "p0 = OtherMessage ''TestMessage'' [7]"

definition m0 :: Message where
  "m0 = \<lparr>Message = \<lparr>TypeUrl = ''TestMessage'', Value = [7]\<rparr>, Sender = id0,
         Signature = [1, 2, 1, 2, 7], MessageNonce = 0, RequestNonce = 0, ReplyFlag = False\<rparr>"

text \<open>The node after it has dialed \<^verbatim>\<open>tcp://flaky\<close> and \<^verbatim>\<open>tcp://b\<close>.\<close>

definition peer_flaky :: PeerClient where
  "peer_flaky = (new_PeerClient ''tcp://flaky'')\<lparr>outgoingReady := True, initialised := True\<rparr>"

definition peer_b :: PeerClient where
  "peer_b = (new_PeerClient ''tcp://b'')\<lparr>outgoingReady := True, initialised := True\<rparr>"

definition n2 :: Network where
  "n2 = n0\<lparr>Peers := [(''tcp://flaky'', 0), (''tcp://b'', 1)],
           Connections := [''tcp://flaky'' \<mapsto> new_ConnState 9, ''tcp://b'' \<mapsto> new_ConnState 1],
           heap := (heap n0)(0 := peer_flaky, 1 := peer_b),
           next_ref := 2\<rparr>"

text \<open>The node with four peers in its registry.\<close>

definition n4 :: Network where
  "n4 = n0\<lparr>Peers := [(''tcp://a'', 0), (''tcp://b'', 1), (''tcp://c'', 2), (''tcp://d'', 3)],
           heap := (heap n0)(0 := new_PeerClient ''tcp://a'', 1 := new_PeerClient ''tcp://b'',
                             2 := new_PeerClient ''tcp://c'', 3 := new_PeerClient ''tcp://d''),
           next_ref := 4\<rparr>"







text \<open>Envelopes that arrive on an accepted connection: two of the peer \<open>id_b\<close>, one of
  another key that names the same address, a reply to the request 5 and one whose payload does
  not decode.\<close>

definition id_b :: ID where
  "id_b = \<lparr>ID_PublicKey = [3, 4], ID_Address = ''tcp://b''\<rparr>"

definition id_c :: ID where
  "id_c = \<lparr>ID_PublicKey = [5, 6], ID_Address = ''tcp://b''\<rparr>"

definition msg_b :: Message where
  "msg_b = \<lparr>Message = \<lparr>TypeUrl = ''TestMessage'', Value = [7]\<rparr>, Sender = id_b,
            Signature = [3, 4, 3, 4, 7], MessageNonce = 1, RequestNonce = 0, ReplyFlag = False\<rparr>"

definition msg_b2 :: Message where
  "msg_b2 = msg_b\<lparr>MessageNonce := 2\<rparr>"

definition msg_c :: Message where
  "msg_c = \<lparr>Message = \<lparr>TypeUrl = ''TestMessage'', Value = [8]\<rparr>, Sender = id_c,
            Signature = [5, 6, 5, 6, 8], MessageNonce = 2, RequestNonce = 0, ReplyFlag = False\<rparr>"

definition reply_b :: Message where
  "reply_b = msg_b\<lparr>RequestNonce := 5, ReplyFlag := True\<rparr>"

definition garbled :: Message where
  "garbled = msg_b\<lparr>Message := \<lparr>TypeUrl = [], Value = [0]\<rparr>\<rparr>"

text \<open>The node after \<^verbatim>\<open>Accept\<close> has handled \<open>msg_b\<close> as the first envelope of a connection,
  the variables of that \<^verbatim>\<open>Accept\<close>, and the same node with a request 5 outstanding.\<close>

definition n_b :: Network where
  "n_b = n0\<lparr>Peers := [(''tcp://b'', 0)],
            Connections := [''tcp://b'' \<mapsto> new_ConnState 1],
            heap := (heap n0)(0 := peer_b\<lparr>pc_ID := Some id_b, incomingReady := True, jobs := [msg_b]\<rparr>),
            next_ref := 1\<rparr>"

definition loc_b :: locals where
  "loc_b = \<lparr>client = Some 0, clientInit = True, outgoing = Some 1\<rparr>"

definition n_req :: Network where
  "n_req = update_client n_b 0 (\<lambda>p. p\<lparr>Requests := [5 \<mapsto> \<lparr>data = [], closeSignal = False\<rparr>]\<rparr>)"

section \<open>Properties\<close>

subsection \<open>What \<^verbatim>\<open>Write\<close> does to the connection and to the envelope\<close>

lemma Write_registered:
  assumes "Connections n address = Some state"
  shows "\<exists>err state2. Write w n address message =
           (err, n\<lparr>Connections := (Connections n)(address \<mapsto> state2)\<rparr>,
            message\<lparr>MessageNonce := messageNonce state + 1\<rparr>)
         \<and> messageNonce state2 = messageNonce state + 1
         \<and> (writer state2 = writer state
            \<or> writer state2 = writer state @ [message\<lparr>MessageNonce := messageNonce state + 1\<rparr>])"
  using assms
  by (auto simp: Write_def sendMessage_def Let_def split: option.splits)

lemma Write_unregistered:
  "Connections n address = None \<Longrightarrow> Write w n address message = (Some ErrConnNotExist, n, message)"
  by (simp add: Write_def)

lemma Write_differs:
  "differs_only_in_MessageNonce (snd (snd (Write w n address message))) message"
proof (cases "Connections n address")
  case None
  then show ?thesis by (simp add: Write_unregistered differs_only_in_MessageNonce_def)
next
  case (Some state)
  from Write_registered [OF Some, of w message] show ?thesis
    by (auto simp: differs_only_in_MessageNonce_def)
qed

lemma differs_trans:
  "differs_only_in_MessageNonce a b \<Longrightarrow> differs_only_in_MessageNonce b c \<Longrightarrow>
   differs_only_in_MessageNonce a c"
  by (simp add: differs_only_in_MessageNonce_def)

lemma Write_each_differs:
  "differs_only_in_MessageNonce (fst (snd (Write_each w n signed' addresses))) signed'"
proof (induction addresses arbitrary: n signed')
  case Nil
  show ?case by (simp add: differs_only_in_MessageNonce_def)
next
  case (Cons address rest)
  obtain err n1 signed1 where W: "Write w n address signed' = (err, n1, signed1)"
    by (cases "Write w n address signed'")
  obtain n2 signed2 errs where E: "Write_each w n1 signed1 rest = (n2, signed2, errs)"
    by (cases "Write_each w n1 signed1 rest")
  have "differs_only_in_MessageNonce signed1 signed'"
    using Write_differs [of w n address signed'] W by simp
  moreover have "differs_only_in_MessageNonce signed2 signed1"
    using Cons.IH [of n1 signed1] E by simp
  ultimately show ?case using W E by (simp add: differs_trans)
qed

lemma verifies_differs:
  "differs_only_in_MessageNonce a b \<Longrightarrow> verifies w os a = verifies w os b"
  by (simp add: differs_only_in_MessageNonce_def verifies_def)

lemma conn_b: "Connections n2 ''tcp://b'' = Some (new_ConnState 1)"
  by (simp add: n2_def)

lemma fresh_b: "messageNonce (new_ConnState 1) = 0"
  by (simp add: new_ConnState_def)

text \<open>
  Claim C9. For an address with a registered \<^verbatim>\<open>ConnState\<close>, \<^verbatim>\<open>Write\<close> changes the
  envelope it is given in the field \<^verbatim>\<open>MessageNonce\<close> only, which becomes the incremented
  counter of the connection: payload, sender, signature, request nonce and reply flag are as
  before. Of the node it changes the \<^verbatim>\<open>ConnState\<close> of that address only, whose writer gets at
  most this one frame. So the envelope that the loop of \<^verbatim>\<open>BroadcastByAddresses\<close> and
  \<^verbatim>\<open>BroadcastByIDs\<close> passes from target to target differs from the prepared one in its nonce
  only, and it verifies exactly when the prepared one does, since the signed bytes do not
  contain the nonce.
\<close>

theorem Write_changes_only_MessageNonce:
  assumes "Connections n address = Some state"
  shows "(\<exists>err state2. Write w n address message =
             (err, n\<lparr>Connections := (Connections n)(address \<mapsto> state2)\<rparr>,
              message\<lparr>MessageNonce := messageNonce state + 1\<rparr>)
           \<and> (writer state2 = writer state
              \<or> writer state2 = writer state @ [message\<lparr>MessageNonce := messageNonce state + 1\<rparr>]))
       \<and> differs_only_in_MessageNonce (snd (snd (Write w n address message))) message
       \<and> verifies w os (snd (snd (Write w n address message))) = verifies w os message
       \<and> differs_only_in_MessageNonce (fst (snd (Write_each w n message addresses))) message
       \<and> verifies w os (fst (snd (Write_each w n message addresses))) = verifies w os message"
proof -
  from Write_registered [OF assms, of w message]
  have "\<exists>err state2. Write w n address message =
             (err, n\<lparr>Connections := (Connections n)(address \<mapsto> state2)\<rparr>,
              message\<lparr>MessageNonce := messageNonce state + 1\<rparr>)
           \<and> (writer state2 = writer state
              \<or> writer state2 = writer state @ [message\<lparr>MessageNonce := messageNonce state + 1\<rparr>])"
    by blast
  then show ?thesis
    using Write_differs [of w n address message] Write_each_differs [of w n message addresses]
    by (simp add: verifies_differs)
qed

theorem Write_changes_only_MessageNonce_witness:
  "Connections n2 ''tcp://b'' = Some (new_ConnState 1)
   \<and> snd (snd (Write w0 n2 ''tcp://b'' m0)) = m0\<lparr>MessageNonce := 1\<rparr>
   \<and> differs_only_in_MessageNonce (snd (snd (Write w0 n2 ''tcp://b'' m0))) m0
   \<and> verifies w0 (opts n2) (snd (snd (Write w0 n2 ''tcp://b'' m0))) = verifies w0 (opts n2) m0
   \<and> verifies w0 (opts n2) (fst (snd (Write_each w0 n2 m0 [''tcp://flaky'', ''tcp://b''])))
       = verifies w0 (opts n2) m0"
  using Write_changes_only_MessageNonce [OF conn_b, of w0 m0 "opts n2" "[''tcp://flaky'', ''tcp://b'']"]
    conn_b fresh_b
  by auto

subsection \<open>The nonces of a connection\<close>

lemma Write_nonces_from:
  "Connections n address = Some state \<Longrightarrow>
   Write_nonces w n address msgs =
     map (\<lambda>k. messageNonce state + of_nat (Suc k)) [0..<length msgs]"
proof (induction msgs arbitrary: n state)
  case Nil
  then show ?case by simp
next
  case (Cons m msgs)
  from Write_registered [OF Cons.prems, of w m]
  obtain err state2 where W: "Write w n address m =
           (err, n\<lparr>Connections := (Connections n)(address \<mapsto> state2)\<rparr>,
            m\<lparr>MessageNonce := messageNonce state + 1\<rparr>)"
     and N: "messageNonce state2 = messageNonce state + 1" by blast
  have C: "Connections (n\<lparr>Connections := (Connections n)(address \<mapsto> state2)\<rparr>) address = Some state2"
    by simp
  have U: "[0..<length (m # msgs)] = 0 # map Suc [0..<length msgs]"
    by (simp add: upt_conv_Cons map_Suc_upt del: upt_Suc)
  show ?case
    unfolding U using Cons.IH [OF C] W N by (simp add: algebra_simps)
qed

lemma of_nat_less_uint64:
  "i < j \<Longrightarrow> j < 2 ^ 64 \<Longrightarrow> (of_nat i :: 64 word) < of_nat j"
  by (simp add: word_less_nat_alt unat_of_nat take_bit_nat_eq_self)

lemma uint64_values_facts: "(of_nat uint64_values :: 64 word) = 0" "2 \<le> uint64_values"
  by (simp_all add: uint64_values_def)

lemma Write_nonces_wrap:
  assumes "Connections n address = Some state" and "messageNonce state = 0"
  shows "\<not> sorted_wrt (<) (Write_nonces w n address (replicate uint64_values m))"
proof
  assume s: "sorted_wrt (<) (Write_nonces w n address (replicate uint64_values m))"
  have eq: "Write_nonces w n address (replicate uint64_values m)
              = map (\<lambda>k. of_nat (Suc k)) [0..<uint64_values]"
    using Write_nonces_from [OF assms(1), of w "replicate uint64_values m"] assms(2) by simp
  have "0 < uint64_values - 1"
    "uint64_values - 1 < length (map (\<lambda>k. of_nat (Suc k) :: 64 word) [0..<uint64_values])"
    using uint64_values_facts(2) by simp_all
  from sorted_wrt_nth_less [OF s [unfolded eq] this]
  have "(of_nat (Suc 0) :: 64 word) < of_nat (Suc (uint64_values - 1))"
    using uint64_values_facts(2) by (simp del: of_nat_Suc)
  moreover have "Suc (uint64_values - 1) = uint64_values" using uint64_values_facts(2) by simp
  ultimately show False using uint64_values_facts(1) by simp
qed

text \<open>The \<^verbatim>\<open>ConnState\<close> that \<^verbatim>\<open>Client\<close> stores for a new entry starts with the counter 0.\<close>

lemma Client_stores_fresh:
  assumes "ToUnifiedAddress w A = Inr address" and "map_of (Peers n) address = None"
    and "Client w n A = Done (Inr c, n')"
  shows "\<exists>s. Connections n' address = Some (new_ConnState s)"
  using assms
  by (auto simp: Client_def createPeerClient_def Let_def update_client_def Init_def
           split: if_splits option.splits outcome.splits sum.splits)

text \<open>
  Claim C4, as stated, fails: the counter is a \<^verbatim>\<open>uint64\<close> that \<^verbatim>\<open>atomic.AddUint64\<close>
  increments modulo \<open>2 ^ 64\<close>. Of \<open>2 ^ 64\<close> writes on one fresh connection the last one carries
  the nonce 0, after \<open>2 ^ 64 - 1\<close>: the sequence of the nonces is not increasing.
\<close>

theorem Write_nonces_not_increasing:
  "\<not> sorted_wrt (<) (Write_nonces w0 n2 ''tcp://b'' (replicate (2 ^ 64) m0))"
  by (rule Write_nonces_wrap [unfolded uint64_values_def, OF conn_b fresh_b])

text \<open>
  Claim C4, amended. On a connection whose \<^verbatim>\<open>ConnState\<close> is registered with the counter 0,
  as \<^verbatim>\<open>Client\<close> stores it, the first \<open>2 ^ 64 - 1\<close> writes carry the nonces 1, 2, 3, ...: the
  k-th write carries the nonce k, so the sequence starts at 1 and is strictly increasing.
\<close>

theorem Write_nonces_increasing:
  assumes "Connections n address = Some state" and "messageNonce state = 0"
    and "length msgs < 2 ^ 64"
  shows "Write_nonces w n address msgs = map of_nat [1..<Suc (length msgs)]
       \<and> sorted_wrt (<) (Write_nonces w n address msgs)"
proof -
  have "Write_nonces w n address msgs = map (\<lambda>k. of_nat (Suc k)) [0..<length msgs]"
    using Write_nonces_from [OF assms(1), of w msgs] assms(2) by simp
  also have "\<dots> = map of_nat (map Suc [0..<length msgs])"
    by (simp add: comp_def)
  also have "map Suc [0..<length msgs] = [1..<Suc (length msgs)]"
    by (simp add: map_Suc_upt del: upt_Suc)
  finally have eq: "Write_nonces w n address msgs = map of_nat [1..<Suc (length msgs)]" .
  have "sorted_wrt (\<lambda>i j. (of_nat i :: 64 word) < of_nat j) [1..<Suc (length msgs)]"
  proof (rule sorted_wrt_mono_rel [OF _ sorted_wrt_upt])
    fix i j
    assume "i \<in> set [1..<Suc (length msgs)]" "j \<in> set [1..<Suc (length msgs)]" "i < j"
    with assms(3) show "(of_nat i :: 64 word) < of_nat j"
      by (intro of_nat_less_uint64) auto
  qed
  then have "sorted_wrt (<) (map (of_nat :: nat \<Rightarrow> 64 word) [1..<Suc (length msgs)])"
    by (simp only: sorted_wrt_map)
  with eq show ?thesis by simp
qed

theorem Write_nonces_increasing_witness:
  "Connections n2 ''tcp://b'' = Some (new_ConnState 1) \<and> messageNonce (new_ConnState 1) = 0
   \<and> length [m0, m0, m0] < 2 ^ 64
   \<and> Write_nonces w0 n2 ''tcp://b'' [m0, m0, m0] = [1, 2, 3]
   \<and> sorted_wrt (<) (Write_nonces w0 n2 ''tcp://b'' [m0, m0, m0])"
proof -
  have l: "length [m0, m0, m0] < 2 ^ 64" by simp
  have u: "[1..<Suc (length [m0, m0, m0])] = [1, 2, 3]" by (simp add: upt_rec)
  from Write_nonces_increasing [OF conn_b fresh_b l, of w0] conn_b fresh_b l u
  show ?thesis by simp
qed

subsection \<open>\<^verbatim>\<open>PrepareMessage\<close>\<close>


lemma PrepareMessage_sign_fails:
  assumes "MarshalAny w P = Inr raw"
    and "Sign (keys n) (signaturePolicy (opts n)) (hashPolicy (opts n))
           (SerializeMessage w (Network_ID n) (Value raw)) = Inl err"
  shows "PrepareMessage w n (Some P) = Inl err"
  using assms by (simp add: PrepareMessage_def Let_def)




subsection \<open>\<^verbatim>\<open>dispatchMessage\<close>\<close>

text \<open>
  Claim C5. For a client whose incoming gate is signaled and an envelope that decodes, has a
  request nonce above 0 and the reply flag, and for whose nonce a \<^verbatim>\<open>RequestState\<close> is
  registered, \<^verbatim>\<open>dispatchMessage\<close> sends the decoded payload on the data channel of that
  \<^verbatim>\<open>RequestState\<close>, or leaves it as it is when the close signal proceeds first, and returns:
  nothing else of the node changes, no plugin receives anything and nothing is logged.
\<close>

theorem dispatchMessage_reply:
  assumes "IncomingReady (heap n c)" and "UnmarshalAny w (Message msg) = Inr p"
    and "RequestNonce msg > 0" and "ReplyFlag msg"
    and "Requests (heap n c) (RequestNonce msg) = Some state"
  shows "dispatchMessage w sel n c msg =
           update_client n c (\<lambda>q. q\<lparr>Requests := (Requests q)(RequestNonce msg \<mapsto>
              (case sel of
                 SendProceeds \<Rightarrow> state\<lparr>data := data state @ [p]\<rparr>
               | CloseProceeds \<Rightarrow> state))\<rparr>)
       \<and> received (dispatchMessage w sel n c msg) = received n
       \<and> glog (dispatchMessage w sel n c msg) = glog n"
  using assms by (simp add: dispatchMessage_def select_data_def update_client_def)

theorem dispatchMessage_reply_witness:
  "IncomingReady (heap n_req 0) \<and> UnmarshalAny w0 (Message reply_b) = Inr p0
   \<and> RequestNonce reply_b > 0 \<and> ReplyFlag reply_b
   \<and> Requests (heap n_req 0) (RequestNonce reply_b) = Some \<lparr>data = [], closeSignal = False\<rparr>
   \<and> Requests (heap (dispatchMessage w0 SendProceeds n_req 0 reply_b) 0) 5
       = Some \<lparr>data = [p0], closeSignal = False\<rparr>
   \<and> received (dispatchMessage w0 SendProceeds n_req 0 reply_b) = received n_req
   \<and> glog (dispatchMessage w0 SendProceeds n_req 0 reply_b) = glog n_req"
proof -
  have h: "IncomingReady (heap n_req 0)" "UnmarshalAny w0 (Message reply_b) = Inr p0"
    "RequestNonce reply_b > 0" "ReplyFlag reply_b"
    "Requests (heap n_req 0) (RequestNonce reply_b) = Some \<lparr>data = [], closeSignal = False\<rparr>"
    by (simp_all add: n_req_def n_b_def update_client_def IncomingReady_def w0_def reply_b_def
          msg_b_def p0_def)
  from dispatchMessage_reply [OF h, of SendProceeds] h show ?thesis
    by (simp add: update_client_def reply_b_def)
qed

text \<open>
  Claim C10. For a client whose incoming gate is signaled, when the payload of the envelope
  does not decode, \<^verbatim>\<open>dispatchMessage\<close> logs the error and returns: the peer clients, with their
  request states, are as before and no plugin has received anything. For a client whose
  incoming gate is not signaled it returns and the node is as before.
\<close>

theorem dispatchMessage_drops:
  "(IncomingReady (heap n c) \<and> UnmarshalAny w (Message msg) = Inl err \<longrightarrow>
      dispatchMessage w sel n c msg = logs n (LogError err)
      \<and> heap (dispatchMessage w sel n c msg) = heap n
      \<and> received (dispatchMessage w sel n c msg) = received n)
   \<and> (\<not> IncomingReady (heap n c) \<longrightarrow> dispatchMessage w sel n c msg = n)"
  by (simp add: dispatchMessage_def logs_def)

theorem dispatchMessage_drops_witness:
  "IncomingReady (heap n_req 0) \<and> UnmarshalAny w0 (Message garbled) = Inl (ErrExternal ''no type'')
   \<and> dispatchMessage w0 SendProceeds n_req 0 garbled = logs n_req (LogError (ErrExternal ''no type''))
   \<and> \<not> IncomingReady (heap n2 1) \<and> dispatchMessage w0 SendProceeds n2 1 msg_b = n2"
proof -
  have h: "IncomingReady (heap n_req 0)"
    "UnmarshalAny w0 (Message garbled) = Inl (ErrExternal ''no type'')"
    "\<not> IncomingReady (heap n2 1)"
    by (simp_all add: n_req_def n_b_def update_client_def IncomingReady_def w0_def garbled_def
          n2_def peer_b_def new_PeerClient_def)
  from dispatchMessage_drops [of n_req 0 w0 garbled "ErrExternal ''no type''" SendProceeds]
       dispatchMessage_drops [of n2 1 w0 msg_b errEmptyMsg SendProceeds] h
  show ?thesis by simp
qed

subsection \<open>\<^verbatim>\<open>Client\<close>\<close>

lemma Dial_reads:
  "Address n' = Address n \<Longrightarrow> Transports n' = Transports n \<Longrightarrow>
   Dial w n' address = Dial w n address"
  by (simp add: Dial_def cong: sum.case_cong option.case_cong if_cong)

lemma Peers_Delete_new:
  "map_of ps address = None \<Longrightarrow> Peers_Delete address (ps @ [(address, c)]) = ps"
  by (auto simp: Peers_Delete_def map_of_eq_None_iff filter_id_conv image_iff)

lemma dial_down: "Dial w0 n2 ''tcp://down'' = Done (Inl (ErrExternal ''connection refused''))"
  by (simp add: Dial_def w0_def n2_def n0_def)

text \<open>
  Claim C7. When \<^verbatim>\<open>Client\<close> installs a new entry for the unified address and the dial
  returns an error, \<^verbatim>\<open>Client\<close> returns that error and the registry is as before the call: the
  entry is deleted, so no peer client is registered for the address, and no \<^verbatim>\<open>ConnState\<close> is
  stored. What is left is the new peer client, off the registry, with its outgoing gate closed
  by the deferred call.
\<close>

theorem Client_dial_failure:
  assumes "ToUnifiedAddress w A = Inr address" and "address \<noteq> Address n"
    and "createPeerClient_error w address = None"
    and "map_of (Peers n) address = None"
    and "Dial w n address = Done (Inl err)"
  shows "Client w n A =
           Done (Inl err,
                 n\<lparr>heap := (heap n)(next_ref n := (new_PeerClient address)\<lparr>outgoingReady := True\<rparr>),
                   next_ref := Suc (next_ref n)\<rparr>)
       \<and> Peers (n\<lparr>heap := (heap n)(next_ref n := (new_PeerClient address)\<lparr>outgoingReady := True\<rparr>),
                   next_ref := Suc (next_ref n)\<rparr>) = Peers n
       \<and> Connections (n\<lparr>heap := (heap n)(next_ref n := (new_PeerClient address)\<lparr>outgoingReady := True\<rparr>),
                   next_ref := Suc (next_ref n)\<rparr>) = Connections n"
proof -
  let ?n2 = "n\<lparr>heap := (heap n)(next_ref n := new_PeerClient address),
               next_ref := Suc (next_ref n),
               Peers := Peers n @ [(address, next_ref n)]\<rparr>"
  have "Dial w ?n2 address = Done (Inl err)"
    using assms(5) Dial_reads [of ?n2 n w address] by simp
  then show ?thesis using assms(1-4)
    by (simp add: Client_def createPeerClient_def Let_def update_client_def Peers_Delete_new)
qed

theorem Client_dial_failure_witness:
  "ToUnifiedAddress w0 ''tcp://down'' = Inr ''tcp://down'' \<and> ''tcp://down'' \<noteq> Address n2
   \<and> createPeerClient_error w0 ''tcp://down'' = None \<and> map_of (Peers n2) ''tcp://down'' = None
   \<and> Dial w0 n2 ''tcp://down'' = Done (Inl (ErrExternal ''connection refused''))
   \<and> Client w0 n2 ''tcp://down'' =
       Done (Inl (ErrExternal ''connection refused''),
             n2\<lparr>heap := (heap n2)(2 := (new_PeerClient ''tcp://down'')\<lparr>outgoingReady := True\<rparr>),
                next_ref := 3\<rparr>)"
proof -
  have h: "ToUnifiedAddress w0 ''tcp://down'' = Inr ''tcp://down''" "''tcp://down'' \<noteq> Address n2"
    "createPeerClient_error w0 ''tcp://down'' = None" "map_of (Peers n2) ''tcp://down'' = None"
    by (simp_all add: w0_def n2_def n0_def)
  have r: "next_ref n2 = 2" by (simp add: n2_def)
  from Client_dial_failure [OF h dial_down] h dial_down show ?thesis
    by (simp add: r)
qed

subsection \<open>\<^verbatim>\<open>Accept\<close>\<close>

text \<open>The first envelope of a connection: the goroutine creates the client, dials, learns the
  identity, signals the incoming gate and submits the envelope.\<close>

lemma Accept_first:
  "Accept_goroutine w0 n0 \<lparr>client = None, clientInit = False, outgoing = None\<rparr> msg_b
     = Done (n_b, loc_b)"
  by (simp add: Accept_goroutine_def Accept_init_def Client_def w0_def n0_def n_b_def loc_b_def
        createPeerClient_def Dial_def Let_def Init_def update_client_def peer_b_def
        new_PeerClient_def OutgoingReady_def msg_b_def id_b_def Equals_def Submit_def
        new_ConnState_def)

text \<open>
  Claim C1, as stated, fails: the loop of \<^verbatim>\<open>Accept\<close> leaves on every error of
  \<^verbatim>\<open>receiveMessage\<close>, \<^verbatim>\<open>errEmptyMsg\<close> too. After an envelope of the peer \<open>id_b\<close>, an empty
  frame ends the loop: \<^verbatim>\<open>Accept\<close> has returned, the peer client is closed, the incoming socket
  4 and the outgoing socket 1 are closed, and the next envelope \<open>msg_b2\<close> is never read, so that
  only \<open>msg_b\<close> was submitted. Nothing is logged.
\<close>

theorem Accept_empty_frame_ends_loop:
  "observe (Accept w0 n0 4 [Inr msg_b, Inl errEmptyMsg, Inr msg_b2]) 0
     = Some (Returned, [msg_b], True, [4, 1], [])"
proof -
  have "Accept w0 n0 4 [Inr msg_b, Inl errEmptyMsg, Inr msg_b2]
      = Done (Returned, Accept_cleanup n_b 4 loc_b, loc_b)"
    by (simp add: Accept_def Accept_first)
  then show ?thesis
    by (simp add: observe_def Accept_cleanup_def Close_def update_client_def Let_def n_b_def
          loc_b_def n0_def)
qed

lemma Accept_cleanup_closes:
  "client loc = Some c \<Longrightarrow> closed (heap (Accept_cleanup n incoming loc) c)"
  by (simp add: Accept_cleanup_def Close_def update_client_def Let_def split: option.splits)

lemma Accept_cleanup_sockets:
  "closed_conns (Accept_cleanup n incoming loc)
     = closed_conns n @ incoming # (case outgoing loc of Some out \<Rightarrow> [out] | None \<Rightarrow> [])"
  by (simp add: Accept_cleanup_def Close_def update_client_def Let_def split: option.splits)

text \<open>
  Claim C1, amended. For every connection being read by \<^verbatim>\<open>Accept\<close>, a zero-length
  frame (the \<^verbatim>\<open>errEmptyMsg\<close> of \<^verbatim>\<open>receiveMessage\<close>) is not logged as an error; it ends the read
  loop of the connection as every other error of \<^verbatim>\<open>receiveMessage\<close> does: no later frame is
  read and \<^verbatim>\<open>Accept\<close> returns through its cleanup, which closes the peer client, if there is
  one, then the incoming socket, then the outgoing socket, if there is one, and changes no
  other peer client.
\<close>

theorem Accept_empty_frame:
  "Accept_loop w n incoming loc (Inl errEmptyMsg # rest)
     = Done (Returned, Accept_cleanup n incoming loc, loc)
   \<and> glog (Accept_cleanup n incoming loc) = glog n
   \<and> (\<forall>c. client loc = Some c \<longrightarrow>
         closed (heap (Accept_cleanup n incoming loc) c)
         \<and> heap (Accept_cleanup n incoming loc) = heap (Close n c))
   \<and> (client loc = None \<longrightarrow> heap (Accept_cleanup n incoming loc) = heap n)
   \<and> closed_conns (Accept_cleanup n incoming loc)
       = closed_conns n @ incoming # (case outgoing loc of Some out \<Rightarrow> [out] | None \<Rightarrow> [])
   \<and> incoming \<in> set (closed_conns (Accept_cleanup n incoming loc))
   \<and> (\<forall>out. outgoing loc = Some out \<longrightarrow> out \<in> set (closed_conns (Accept_cleanup n incoming loc)))"
proof -
  have h: "\<forall>c. client loc = Some c \<longrightarrow> heap (Accept_cleanup n incoming loc) = heap (Close n c)"
    "client loc = None \<longrightarrow> heap (Accept_cleanup n incoming loc) = heap n"
    by (simp_all add: Accept_cleanup_def Let_def split: option.splits)
  have g: "glog (Accept_cleanup n incoming loc) = glog n"
    by (simp add: Accept_cleanup_def Close_def update_client_def Let_def split: option.splits)
  have o: "\<forall>out. outgoing loc = Some out \<longrightarrow> out \<in> set (closed_conns (Accept_cleanup n incoming loc))"
    by (simp add: Accept_cleanup_sockets)
  show ?thesis
    using h g o Accept_cleanup_closes [of loc _ n incoming]
    by (simp add: Accept_cleanup_sockets)
qed

theorem Accept_empty_frame_witness:
  "Accept_loop w0 n_b 4 loc_b [Inl errEmptyMsg, Inr msg_b2]
     = Done (Returned, Accept_cleanup n_b 4 loc_b, loc_b)
   \<and> glog (Accept_cleanup n_b 4 loc_b) = []
   \<and> client loc_b = Some 0 \<and> closed (heap (Accept_cleanup n_b 4 loc_b) 0)
   \<and> jobs (heap (Accept_cleanup n_b 4 loc_b) 0) = [msg_b]
   \<and> outgoing loc_b = Some 1 \<and> closed_conns (Accept_cleanup n_b 4 loc_b) = [4, 1]"
proof -
  have l: "client loc_b = Some 0" "outgoing loc_b = Some 1" "glog n_b = []" "closed_conns n_b = []"
    by (simp_all add: loc_b_def n_b_def n0_def)
  have j: "jobs (heap (Close n_b 0) 0) = [msg_b]"
    by (simp add: Close_def update_client_def n_b_def)
  from Accept_empty_frame [of w0 n_b 4 loc_b "[Inr msg_b2]"] l j show ?thesis
    by auto
qed

text \<open>The identity is learned from the first envelope whose goroutine leaves a client, and no
  later goroutine of the same \<^verbatim>\<open>Accept\<close> changes it.\<close>

lemma Accept_first_learns:
  assumes "\<not> clientInit loc" and "Accept_goroutine w n loc msg = Done (n', loc')"
    and "client loc' \<noteq> None"
  shows "learned_ID n' loc' = Some (Sender msg)"
  using assms
  by (auto simp: learned_ID_def Accept_goroutine_def Accept_init_def logs_def Let_def
        update_client_def Submit_def
      split: if_splits option.splits outcome.splits sum.splits prod.splits)

lemma Accept_keeps_learned:
  assumes "learned_ID n loc = Some learned" and "Accept_goroutine w n loc msg = Done (n', loc')"
  shows "learned_ID n' loc' = Some learned"
  using assms
  by (auto simp: learned_ID_def Accept_goroutine_def logs_def Let_def update_client_def Submit_def
      split: if_splits option.splits)

text \<open>
  Claim C8. Once \<^verbatim>\<open>Accept\<close> has learned the identity of its client, an envelope whose
  sender does not equal that identity is dropped: its goroutine writes the mismatch to the log
  and returns, so nothing is submitted to the ordered executor and no peer client changes; the
  identity learned stays, and the loop goes on with the frames that follow.
\<close>

theorem Accept_sender_mismatch:
  assumes "learned_ID n loc = Some learned" and "\<not> Equals learned (Sender msg)"
  shows "Accept_goroutine w n loc msg
           = Done (logs n (LogMismatch (Sender msg) (ID_Address learned)), loc)
       \<and> Accept_loop w n incoming loc (Inr msg # rest)
           = Accept_loop w (logs n (LogMismatch (Sender msg) (ID_Address learned))) incoming loc rest
       \<and> heap (logs n (LogMismatch (Sender msg) (ID_Address learned))) = heap n
       \<and> learned_ID (logs n (LogMismatch (Sender msg) (ID_Address learned))) loc = Some learned"
  using assms
  by (auto simp: learned_ID_def Accept_goroutine_def logs_def split: if_splits option.splits)

theorem Accept_sender_mismatch_witness:
  "learned_ID n_b loc_b = Some id_b \<and> \<not> Equals id_b (Sender msg_c)
   \<and> Accept w0 n0 4 [Inr msg_b, Inr msg_c, Inr msg_b2]
       = Done (Reading, Submit (logs n_b (LogMismatch id_c ''tcp://b'')) 0 msg_b2, loc_b)
   \<and> jobs (heap (Submit (logs n_b (LogMismatch id_c ''tcp://b'')) 0 msg_b2) 0) = [msg_b, msg_b2]"
proof -
  have h: "learned_ID n_b loc_b = Some id_b" "\<not> Equals id_b (Sender msg_c)"
    by (simp_all add: learned_ID_def n_b_def loc_b_def Equals_def id_b_def msg_c_def id_c_def)
  have s: "Sender msg_c = id_c" "ID_Address id_b = ''tcp://b''"
    by (simp_all add: msg_c_def id_b_def)
  have a: "Accept w0 n0 4 [Inr msg_b, Inr msg_c, Inr msg_b2]
         = Accept_loop w0 n_b 4 loc_b [Inr msg_c, Inr msg_b2]"
    by (simp add: Accept_def Accept_first)
  have g: "Accept_goroutine w0 (logs n_b (LogMismatch id_c ''tcp://b'')) loc_b msg_b2
         = Done (Submit (logs n_b (LogMismatch id_c ''tcp://b'')) 0 msg_b2, loc_b)"
    by (simp add: Accept_goroutine_def logs_def n_b_def loc_b_def Equals_def msg_b2_def msg_b_def)
  have j: "jobs (heap (Submit (logs n_b (LogMismatch id_c ''tcp://b'')) 0 msg_b2) 0) = [msg_b, msg_b2]"
    by (simp add: Submit_def update_client_def logs_def n_b_def)
  from Accept_sender_mismatch [OF h, of w0 4 "[Inr msg_b2]"] h s a g j show ?thesis
    by simp
qed

subsection \<open>Broadcasts\<close>

lemma Range_addresses_take:
  "Range_addresses n K acc ps =
     acc @ take (max 1 (Suc (nat (sint (K * 3))) - length acc))
             (map (\<lambda>kv. pc_Address (heap n (snd kv))) ps)"
proof (induction ps arbitrary: acc)
  case Nil
  show ?case by simp
next
  case (Cons kv ps)
  obtain key c where kv: "kv = (key, c)" by (cases kv)
  show ?case
  proof (cases "int (length (acc @ [pc_Address (heap n c)])) \<le> sint (K * 3)")
    case True
    then have le: "Suc (length acc) \<le> nat (sint (K * 3))" by simp
    then have m:
      "max (Suc 0) (Suc (nat (sint (K * 3))) - length acc) = Suc (nat (sint (K * 3)) - length acc)"
      "max (Suc 0) (nat (sint (K * 3)) - length acc) = nat (sint (K * 3)) - length acc"
      by auto
    show ?thesis
      using True Cons.IH [of "acc @ [pc_Address (heap n c)]"]
      by (simp add: kv Let_def m)
  next
    case False
    then have "nat (sint (K * 3)) \<le> length acc" by simp
    then have m: "max (Suc 0) (Suc (nat (sint (K * 3))) - length acc) = Suc 0" by auto
    show ?thesis using False by (simp add: kv Let_def m)
  qed
qed

text \<open>What \<^verbatim>\<open>BroadcastRandomly\<close> collects is the addresses of the first \<open>3 K + 1\<close> entries of
  the registry, in the order of the iteration (of the first entry when \<open>3 K\<close> is negative).\<close>

lemma sampled_take:
  "sampled n K =
     take (Suc (nat (sint (K * 3)))) (map (\<lambda>kv. pc_Address (heap n (snd kv))) (Peers n))"
  by (simp add: sampled_def Range_addresses_take)

lemma length_swap [simp]: "length (swap i j xs) = length xs"
  by (simp add: swap_def)

lemma mset_swap_list: "i < length xs \<Longrightarrow> j < length xs \<Longrightarrow> mset (swap i j xs) = mset xs"
  by (simp add: swap_def mset_swap)

lemma Shuffle_loop_perm:
  "i < length xs \<Longrightarrow>
   length (Shuffle_loop rnd i xs) = length xs \<and> mset (Shuffle_loop rnd i xs) = mset xs"
proof (induction i arbitrary: xs)
  case 0
  show ?case by simp
next
  case (Suc i)
  have "rnd (Suc i) mod (Suc i + 1) < Suc i + 1" by simp
  with Suc.prems have j: "rnd (Suc i) mod (Suc i + 1) < length xs" by linarith
  have "i < length (swap (Suc i) (rnd (Suc i) mod (Suc i + 1)) xs)" using Suc.prems by simp
  from Suc.IH [OF this] show ?case
    using mset_swap_list [OF Suc.prems j] by simp
qed

lemma Shuffle_perm: "length (Shuffle rnd xs) = length xs \<and> mset (Shuffle rnd xs) = mset xs"
proof (cases xs)
  case Nil
  then show ?thesis by (simp add: Shuffle_def)
next
  case (Cons x ys)
  then have "length xs - 1 < length xs" by simp
  from Shuffle_loop_perm [OF this] show ?thesis by (simp add: Shuffle_def)
qed

text \<open>For \<^verbatim>\<open>K\<close> that is not negative, \<^verbatim>\<open>BroadcastRandomly\<close> forwards \<open>min K (number sampled)\<close>
  of the sampled addresses; for a negative \<^verbatim>\<open>K\<close> the slice expression panics.\<close>

lemma forwarded_min:
  assumes "0 \<le> sint K"
  shows "\<exists>xs. forwarded rnd n K = Done xs
            \<and> length xs = min (nat (sint K)) (length (sampled n K))
            \<and> mset xs \<subseteq># mset (sampled n K)"
proof -
  let ?a = "Shuffle rnd (sampled n K)"
  have l: "length ?a = length (sampled n K)" and m: "mset ?a = mset (sampled n K)"
    using Shuffle_perm by blast+
  have "mset (take k ?a) \<subseteq># mset ?a" for k
    by (metis append_take_drop_id mset_append mset_subset_eq_add_left)
  then show ?thesis
    using assms l m by (auto simp: forwarded_def Let_def min_def)
qed

lemma forwarded_negative:
  "sint K < 0 \<Longrightarrow> forwarded rnd n K = Panic ''slice bounds out of range''"
  by (simp add: forwarded_def Let_def)

text \<open>
  Claim C2 holds of the bound that the code aims at and fails on the code: the callback of
  \<^verbatim>\<open>Range\<close> appends the address before it tests \<^verbatim>\<open>len(addresses) <= K*3\<close>, so the walk stops
  one entry late. With four peers in the registry and \<^verbatim>\<open>K = 1\<close>, \<^verbatim>\<open>BroadcastRandomly\<close>
  collects four addresses, not at most three.
\<close>

theorem BroadcastRandomly_samples_four:
  "sampled n4 1 = [''tcp://a'', ''tcp://b'', ''tcp://c'', ''tcp://d'']
   \<and> length (sampled n4 1) = 4"
  by (simp add: sampled_def n4_def n0_def new_PeerClient_def Let_def)

lemma prepared_m0: "PrepareMessage w0 n2 (Some p0) = Inr m0"
  by (simp add: PrepareMessage_def w0_def n2_def n0_def p0_def m0_def Sign_def sp0_def hp0_def
        SerializeMessage_def id0_def Let_def)

lemma Write_each_flaky:
  "snd (snd (Write_each w0 n2 m0 [''tcp://flaky'', ''tcp://b'']))
     = [Some (ErrExternal ''broken pipe''), None]
   \<and> glog (fst (Write_each w0 n2 m0 [''tcp://flaky'', ''tcp://b''])) = []
   \<and> map_option writer
       (Connections (fst (Write_each w0 n2 m0 [''tcp://flaky'', ''tcp://b''])) ''tcp://b'')
       = Some [m0\<lparr>MessageNonce := 1\<rparr>]"
  by (simp add: Write_def sendMessage_def n2_def n0_def w0_def new_ConnState_def Let_def)

lemma Broadcast_flaky:
  "glog (Broadcast w0 n2 (Some p0)) = [LogSendFailed None (ErrExternal ''broken pipe'')]"
  by (simp add: Broadcast_def Tell_def Write_def sendMessage_def PrepareMessage_def Sign_def
        SerializeMessage_def sp0_def hp0_def p0_def id0_def n2_def n0_def w0_def
        new_ConnState_def Let_def logs_def OutgoingReady_def peer_b_def peer_flaky_def
        new_PeerClient_def)

text \<open>
  Claim C3 holds of \<^verbatim>\<open>Broadcast\<close> and fails on \<^verbatim>\<open>BroadcastByAddresses\<close> and
  \<^verbatim>\<open>BroadcastByIDs\<close>, which drop what \<^verbatim>\<open>Write\<close> returns. On the node with the peers
  \<^verbatim>\<open>tcp://flaky\<close>, whose socket fails every write, and \<^verbatim>\<open>tcp://b\<close>: the write to the first
  target fails and the second target is still written to, in all three; \<^verbatim>\<open>Broadcast\<close> logs the
  failure, the other two log nothing.
\<close>

theorem BroadcastByAddresses_logs_nothing:
  "PrepareMessage w0 n2 (Some p0) = Inr m0
   \<and> snd (snd (Write_each w0 n2 m0 [''tcp://flaky'', ''tcp://b'']))
       = [Some (ErrExternal ''broken pipe''), None]
   \<and> map_option writer
       (Connections (BroadcastByAddresses w0 n2 (Some p0) [''tcp://flaky'', ''tcp://b'']) ''tcp://b'')
       = Some [m0\<lparr>MessageNonce := 1\<rparr>]
   \<and> glog (BroadcastByAddresses w0 n2 (Some p0) [''tcp://flaky'', ''tcp://b'']) = []
   \<and> glog (BroadcastByIDs w0 n2 (Some p0)
             [\<lparr>ID_PublicKey = [9], ID_Address = ''tcp://flaky''\<rparr>, id_b]) = []
   \<and> glog (Broadcast w0 n2 (Some p0)) = [LogSendFailed None (ErrExternal ''broken pipe'')]"
proof -
  have "map ID_Address [\<lparr>ID_PublicKey = [9], ID_Address = ''tcp://flaky''\<rparr>, id_b]
          = [''tcp://flaky'', ''tcp://b'']"
    by (simp add: id_b_def)
  then show ?thesis
    using Write_each_flaky Broadcast_flaky
    by (simp add: prepared_m0 BroadcastByAddresses_def BroadcastByIDs_def)
qed

text \<open>The node \<open>n2\<close> is what two calls of \<^verbatim>\<open>Client\<close> make of \<open>n0\<close>.\<close>

lemma n2_by_Client:
  "Client w0 n0 ''tcp://flaky''
     = Done (Inr 0, n0\<lparr>Peers := [(''tcp://flaky'', 0)],
                       Connections := [''tcp://flaky'' \<mapsto> new_ConnState 9],
                       heap := (heap n0)(0 := peer_flaky), next_ref := 1\<rparr>)"
  "Client w0 (n0\<lparr>Peers := [(''tcp://flaky'', 0)],
                Connections := [''tcp://flaky'' \<mapsto> new_ConnState 9],
                heap := (heap n0)(0 := peer_flaky), next_ref := 1\<rparr>) ''tcp://b''
     = Done (Inr 1, n2)"
  by (simp_all add: Client_def w0_def n0_def n2_def createPeerClient_def Dial_def Let_def Init_def
        update_client_def peer_flaky_def peer_b_def new_PeerClient_def OutgoingReady_def)

end
